theory Spec2Isabelle
  imports Main
begin

text \<open>
  The documentation site's root component, \<^verbatim>\<open>src/App.js\<close>: the two renderers it gives to
  the document provider (\<^verbatim>\<open>Demoboard\<close> and \<^verbatim>\<open>code\<close>), the busy indicator and the not-found
  boundary. The component is embedded as functions from props to elements; what it
  imports (the highlighter, the routing hooks) enters as parameters.
\<close>

section \<open>JavaScript values, strings and objects\<close>

text \<open>
  The values that flow through \<^verbatim>\<open>src/App.js\<close>: \<^verbatim>\<open>undefined\<close>, \<^verbatim>\<open>null\<close>, strings,
  a member that a property read finds on \<^verbatim>\<open>Object.prototype\<close> (named by its key), and
  any other object (the route that \<^verbatim>\<open>useLoadingRoute()\<close> returns).
\<close>

datatype 'o jsval = Undefined | Null | Str string | Inherited string | Obj 'o

text \<open>Exceptions: the \<^verbatim>\<open>TypeError\<close> of the language, and an \<^verbatim>\<open>Error\<close> with its message.\<close>

datatype exn = TypeError | Error string

text \<open>\<^verbatim>\<open>ToBoolean\<close>: what \<^verbatim>\<open>||\<close> and \<^verbatim>\<open>!!\<close> test.\<close>

fun truthy :: "'o jsval \<Rightarrow> bool" where
  "truthy Undefined = False"
| "truthy Null = False"
| "truthy (Str s) = (s \<noteq> [])"
| "truthy (Inherited k) = True"
| "truthy (Obj x) = True"

text \<open>\<^verbatim>\<open>a || b\<close>\<close>

definition js_or :: "'o jsval \<Rightarrow> 'o jsval \<Rightarrow> 'o jsval" where
  "js_or a b = (if truthy a then a else b)"

text \<open>A property that is a string when it is given and \<^verbatim>\<open>undefined\<close> when it is omitted.\<close>

fun optional :: "string option \<Rightarrow> 'o jsval" where
  "optional None = Undefined"
| "optional (Some s) = Str s"

text \<open>\<^verbatim>\<open>xs[i]\<close> on an array of strings: \<^verbatim>\<open>undefined\<close> out of range.\<close>

definition js_index :: "string list \<Rightarrow> nat \<Rightarrow> 'o jsval" where
  "js_index xs i = (if i < length xs then Str (xs ! i) else Undefined)"

text \<open>
  \<^verbatim>\<open>s.split(sep)\<close> for a one-character separator: the segments between the separators,
  at least one (the empty string splits into one empty segment).
\<close>

fun js_split :: "char \<Rightarrow> string \<Rightarrow> string list" where
  "js_split sep [] = [[]]"
| "js_split sep (c # cs) =
     (if c = sep then [] # js_split sep cs
      else (c # hd (js_split sep cs)) # tl (js_split sep cs))"

text \<open>
  An object literal: its own properties in the order they were created, with distinct
  keys. Its prototype is \<^verbatim>\<open>Object.prototype\<close>, whose property names are those of the
  language standard (with its annex for browsers).
\<close>

type_synonym 'v object = "(string \<times> 'v) list"

definition Object_prototype :: "string list" where
  "Object_prototype =
     [''constructor'', ''hasOwnProperty'', ''isPrototypeOf'', ''propertyIsEnumerable'',
      ''toLocaleString'', ''toString'', ''valueOf'', ''__proto__'',
      ''__defineGetter__'', ''__defineSetter__'', ''__lookupGetter__'', ''__lookupSetter__'']"

text \<open>\<^verbatim>\<open>obj[key]\<close> for a string key: the own property, else the inherited one, else \<^verbatim>\<open>undefined\<close>.\<close>

definition js_get :: "string object \<Rightarrow> string \<Rightarrow> 'o jsval" where
  "js_get obj key =
     (case map_of obj key of
        Some v \<Rightarrow> Str v
      | None \<Rightarrow> if key \<in> set Object_prototype then Inherited key else Undefined)"

text \<open>
  \<^verbatim>\<open>Object.keys(obj)\<close>: the keys that are array indices (canonical decimal numerals below
  \<open>2\<^sup>3\<^sup>2 - 1\<close>) in ascending numeric order, then the other keys in creation order.
\<close>

definition is_digit :: "char \<Rightarrow> bool" where
  "is_digit c = (48 \<le> (of_char c :: nat) \<and> (of_char c :: nat) \<le> 57)"

definition decimal :: "string \<Rightarrow> nat" where
  "decimal s = foldl (\<lambda>n c. 10 * n + (of_char c - 48)) 0 s"

definition is_array_index :: "string \<Rightarrow> bool" where
  "is_array_index s =
     (s \<noteq> [] \<and> list_all is_digit s \<and> (if hd s = CHR ''0'' then s = ''0'' else True)
      \<and> decimal s < 4294967295)"

definition Object_keys :: "'v object \<Rightarrow> string list" where
  "Object_keys obj =
     sort_key decimal (filter is_array_index (map fst obj))
     @ filter (\<lambda>k. \<not> is_array_index k) (map fst obj)"

section \<open>The host: the engine's rendering of built-ins and the Prism library\<close>

text \<open>
  \<^verbatim>\<open>import Prism from 'prismjs'\<close> is not part of the repository. The renderer uses two of
  its members: the registry \<^verbatim>\<open>Prism.languages\<close> (a name gives a grammar or \<^verbatim>\<open>undefined\<close>)
  and the function \<^verbatim>\<open>Prism.highlight(text, grammar, language)\<close>, which returns markup or
  throws. Both are parameters, with the text that the engine gives for a built-in member
  of \<^verbatim>\<open>Object.prototype\<close> when it is converted to a string.
\<close>

record ('o, 'g) host =
  nativeToString :: "string \<Rightarrow> string"
  prismLanguages :: "string \<Rightarrow> 'g option"
  prismHighlight :: "'o jsval \<Rightarrow> 'g option \<Rightarrow> 'o jsval \<Rightarrow> exn + string"

text \<open>\<^verbatim>\<open>ToString\<close>, as string concatenation and property keys apply it.\<close>

fun to_string :: "('o, 'g) host \<Rightarrow> 'o jsval \<Rightarrow> string" where
  "to_string h Undefined = ''undefined''"
| "to_string h Null = ''null''"
| "to_string h (Str s) = s"
| "to_string h (Inherited k) = nativeToString h k"
| "to_string h (Obj x) = ''[object Object]''"

section \<open>React elements\<close>

text \<open>
  A JSX expression \<^verbatim>\<open><T a={x}>...</T>\<close> is an element: its type, its props in the order
  written, its children. \<^verbatim>\<open>id\<close> and \<^verbatim>\<open>style\<close> are passed through as they come.
\<close>

datatype ('i, 's) attr =
    PTrue
  | PBool bool
  | PStr string
  | PId 'i
  | PStyle 's
  | PInnerHTML string
  | PComponents "string list"
  | PRender "('i, 's) element"
and ('i, 's) element =
    Element string "(string \<times> ('i, 's) attr) list" "('i, 's) element list"
  | TextNode string

section \<open>The tables\<close>

text \<open>
  \<^verbatim>\<open>const languages = { 'jsx': 'jsx', 'js': 'jsx', 'html': 'markup', 'css': 'css' }\<close>
  \<^verbatim>\<open>const grammars = { 'jsx': 'javascript', 'html': 'html', 'css': 'css' }\<close>
\<close>

definition languages :: "string object" where
  "languages = [(''jsx'', ''jsx''), (''js'', ''jsx''), (''html'', ''markup''), (''css'', ''css'')]"

definition grammars :: "string object" where
  "grammars = [(''jsx'', ''javascript''), (''html'', ''html''), (''css'', ''css'')]"

section \<open>The components of \<^verbatim>\<open>App\<close>\<close>

text \<open>The props both renderers forward without reading them.\<close>

record ('i, 's) passthrough =
  id' :: 'i
  style :: 's

subsection \<open>Demoboard\<close>

text \<open>\<^verbatim>\<open>Demoboard: ({ editorPathname, id, style, sources }) => ...\<close>\<close>

record ('i, 's) Demoboard_props = "('i, 's) passthrough" +
  editorPathname :: "string option"
  sources :: "string object"

text \<open>\<^verbatim>\<open>let filename = editorPathname || Object.keys(sources)[0]\<close>\<close>

definition Demoboard_filename :: "('i, 's) Demoboard_props \<Rightarrow> 'o jsval" where
  "Demoboard_filename p =
     js_or (optional (editorPathname p)) (js_index (Object_keys (sources p)) 0)"

text \<open>\<^verbatim>\<open>let extension = filename.split('.').reverse()[0]\<close>\<close>

definition Demoboard_extension :: "string \<Rightarrow> 'o jsval" where
  "Demoboard_extension filename = js_index (rev (js_split CHR ''.'' filename)) 0"

text \<open>\<^verbatim>\<open>let language = languages[extension]\<close>\<close>

definition Demoboard_language :: "('o, 'g) host \<Rightarrow> 'o jsval \<Rightarrow> 'o jsval" where
  "Demoboard_language h extension = js_get languages (to_string h extension)"

text \<open>\<^verbatim>\<open>grammars[language]\<close>, the grammar identifier, and \<^verbatim>\<open>Prism.languages[grammars[language]]\<close>.\<close>

definition Demoboard_grammar_id :: "('o, 'g) host \<Rightarrow> 'o jsval \<Rightarrow> 'o jsval" where
  "Demoboard_grammar_id h language = js_get grammars (to_string h language)"

definition Demoboard_grammar :: "('o, 'g) host \<Rightarrow> 'o jsval \<Rightarrow> 'g option" where
  "Demoboard_grammar h language = prismLanguages h (to_string h (Demoboard_grammar_id h language))"

text \<open>
  The element that \<^verbatim>\<open>Demoboard\<close> returns, or the exception that ends the render:
  \<^verbatim>\<open>filename.split\<close> throws a \<^verbatim>\<open>TypeError\<close> when \<^verbatim>\<open>filename\<close> is not a string, and
  whatever \<^verbatim>\<open>Prism.highlight\<close> throws is not caught.
\<close>

definition Demoboard ::
  "('o, 'g) host \<Rightarrow> ('i, 's) Demoboard_props \<Rightarrow> exn + ('i, 's) element" where
  "Demoboard h p =
     (case (Demoboard_filename p :: 'o jsval) of
        Str filename \<Rightarrow>
          (let extension = Demoboard_extension filename;
               language = Demoboard_language h extension
           in case prismHighlight h (js_get (sources p) filename)
                     (Demoboard_grammar h language) language of
                Inl e \<Rightarrow> Inl e
              | Inr html \<Rightarrow>
                  Inr (Element ''Doc.Gutter'' [(''horizontal'', PTrue)]
                    [Element ''div'' [(''className'', PStr ''navi-website-code demoboard'')]
                      [Element ''Doc.Gutter''
                         [(''Component'', PStr ''pre''), (''half'', PTrue),
                          (''className'', PStr (''language-'' @ to_string h language))]
                         [Element ''code''
                            [(''id'', PId (id' p)), (''style'', PStyle (style p)),
                             (''dangerouslySetInnerHTML'', PInnerHTML html)]
                            []]]]))
      | _ \<Rightarrow> Inl TypeError)"

subsection \<open>code\<close>

text \<open>\<^verbatim>\<open>code: ({ highlightedSource, language='text', id, style }) => ...\<close>\<close>

record ('i, 's) code_props = "('i, 's) passthrough" +
  highlightedSource :: string
  language :: "string option"

definition code :: "('i, 's) code_props \<Rightarrow> ('i, 's) element" where
  "code p =
     (let language = (case language p of None \<Rightarrow> ''text'' | Some l \<Rightarrow> l)
      in Element ''Doc.Block'' [(''className'', PStr ''navi-website-code'')]
           [Element ''Doc.Gutter''
              [(''Component'', PStr ''pre''), (''half'', PTrue),
               (''className'', PStr (''language-'' @ language))]
              [Element ''code''
                 [(''id'', PId (id' p)), (''style'', PStyle (style p)),
                  (''dangerouslySetInnerHTML'', PInnerHTML (highlightedSource p))]
                 []]])"

subsection \<open>App\<close>

text \<open>
  \<^verbatim>\<open>let loadingRoute = useLoadingRoute()\<close>: the value of the hook is the argument.
  The \<^verbatim>\<open>components\<close> prop holds the two renderers above, named by their keys.
\<close>

definition App :: "'o jsval \<Rightarrow> ('i, 's) element" where
  "App loadingRoute =
     Element ''DocProvider'' [(''components'', PComponents [''Demoboard'', ''code''])]
       [Element ''BusyIndicator'' [(''isBusy'', PBool (\<not> \<not> truthy loadingRoute))] [],
        Element ''NotFoundBoundary''
          [(''render'', PRender (Element ''h1'' [] [TextNode ''Not Found'']))]
          [Element ''View'' [] []]]"

section \<open>Reading a rendered element\<close>

text \<open>The values of the prop \<open>key\<close> on the elements of type \<open>tag\<close>, in document order.\<close>

fun props_of :: "string \<Rightarrow> string \<Rightarrow> ('i, 's) element \<Rightarrow> ('i, 's) attr list" where
  "props_of tag key (Element t ps cs) =
     (if t = tag then map snd (filter (\<lambda>kv. fst kv = key) ps) else [])
     @ concat (map (props_of tag key) cs)"
| "props_of tag key (TextNode s) = []"

text \<open>The markup handed to \<^verbatim>\<open>dangerouslySetInnerHTML\<close>, in document order.\<close>

fun inner_html :: "('i, 's) attr \<Rightarrow> string list" where
  "inner_html (PInnerHTML m) = [m]"
| "inner_html v = []"

fun injected :: "('i, 's) element \<Rightarrow> string list" where
  "injected (Element t ps cs) =
     concat (map (\<lambda>kv. inner_html (snd kv)) ps) @ concat (map injected cs)"
| "injected (TextNode s) = []"

text \<open>The element with every \<^verbatim>\<open>className\<close> prop removed.\<close>

fun without_className :: "('i, 's) element \<Rightarrow> ('i, 's) element" where
  "without_className (Element t ps cs) =
     Element t (filter (\<lambda>kv. fst kv \<noteq> ''className'') ps) (map without_className cs)"
| "without_className (TextNode s) = TextNode s"

section \<open>A host for concrete runs\<close>

text \<open>
  A stand-in for the library at its boundary. Prism's \<^verbatim>\<open>highlight\<close> goes straight into
  its tokenizer, which reads a property of the grammar and then the length of the text,
  so a call with either of them \<^verbatim>\<open>undefined\<close> ends in a \<^verbatim>\<open>TypeError\<close>. Tokenizing itself
  is not modelled: the text comes back as it is. The registry holds the grammars of the
  library's core and of its JSX component, each standing for itself by name; the text of
  a built-in function is the one V8 prints.
\<close>

definition strictPrism :: "('o, string) host" where
  "strictPrism =
     \<lparr> nativeToString = (\<lambda>k. ''function '' @ k @ ''() { [native code] }''),
       prismLanguages =
         map_of (map (\<lambda>g. (g, g))
           [''markup'', ''html'', ''xml'', ''svg'', ''css'', ''clike'', ''javascript'', ''js'', ''jsx'']),
       prismHighlight =
         (\<lambda>text grammar language.
            case grammar of
              None \<Rightarrow> Inl TypeError
            | Some g \<Rightarrow> (case text of Str s \<Rightarrow> Inr s | _ \<Rightarrow> Inl TypeError)) \<rparr>"

section \<open>Splitting a file name\<close>

lemma js_split_not_Nil: "js_split sep s \<noteq> []"
  by (induction s) auto

lemma js_split_no_sep: "sep \<notin> set s \<Longrightarrow> js_split sep s = [s]"
  by (induction s) auto

lemma js_split_append: "js_split sep (xs @ sep # ys) = js_split sep xs @ js_split sep ys"
proof (induction xs)
  case Nil
  show ?case by simp
next
  case (Cons c xs)
  have "js_split sep xs \<noteq> []" by (rule js_split_not_Nil)
  with Cons show ?case by simp
qed

lemma last_js_split:
  assumes "sep \<notin> set e"
  shows "last (js_split sep (stem @ sep # e)) = e"
proof -
  have "js_split sep (stem @ sep # e) = js_split sep stem @ [e]"
    using assms by (simp add: js_split_append js_split_no_sep)
  then show ?thesis by simp
qed

lemma Demoboard_extension_last:
  "Demoboard_extension filename = Str (last (js_split CHR ''.'' filename))"
proof -
  have "rev (js_split CHR ''.'' filename) \<noteq> []" by (simp add: js_split_not_Nil)
  then show ?thesis
    by (simp add: Demoboard_extension_def js_index_def rev_nth last_conv_nth)
qed

text \<open>The last segment of a name is the name itself, or what follows its last dot.\<close>

lemma Demoboard_extension_segment:
  assumes "CHR ''.'' \<notin> set e" and "filename = e \<or> filename = stem @ ''.'' @ e"
  shows "Demoboard_extension filename = Str e"
  using assms by (auto simp: Demoboard_extension_last js_split_no_sep last_js_split)

lemma languages_keys:
  "map_of languages e = Some l \<Longrightarrow>
     (e, l) \<in> {(''jsx'', ''jsx''), (''js'', ''jsx''), (''html'', ''markup''), (''css'', ''css'')}"
  by (auto simp: languages_def split: if_splits)

lemma languages_key_no_dot: "map_of languages e = Some l \<Longrightarrow> CHR ''.'' \<notin> set e"
  by (auto dest: languages_keys)

lemma js_get_grammars_jsx: "js_get grammars ''jsx'' = Str ''javascript''"
  by (simp add: js_get_def grammars_def)

lemma js_get_grammars_css: "js_get grammars ''css'' = Str ''css''"
  by (simp add: js_get_def grammars_def)

lemma js_get_grammars_markup: "js_get grammars ''markup'' = Undefined"
  by (simp add: js_get_def grammars_def Object_prototype_def)

section \<open>Resolving a file name to a language and a grammar\<close>

text \<open>
  C3. When the last dot-separated segment of the file name is a key of \<^verbatim>\<open>languages\<close>, the
  language is the label stored under that key and the grammar identifier is what
  \<^verbatim>\<open>grammars\<close> holds under that label: \<^verbatim>\<open>jsx\<close> and \<^verbatim>\<open>js\<close> give \<^verbatim>\<open>jsx\<close> and
  \<^verbatim>\<open>javascript\<close>, \<^verbatim>\<open>css\<close> gives \<^verbatim>\<open>css\<close> and \<^verbatim>\<open>css\<close>, and \<^verbatim>\<open>html\<close> gives \<^verbatim>\<open>markup\<close>, under
  which \<^verbatim>\<open>grammars\<close> holds nothing.
\<close>

theorem known_extension_resolves:
  assumes "map_of languages e = Some l"
    and "filename = e \<or> filename = stem @ ''.'' @ e"
  shows "Demoboard_language h (Demoboard_extension filename) = Str l
    \<and> Demoboard_grammar_id h (Demoboard_language h (Demoboard_extension filename))
        = js_get grammars l
    \<and> Demoboard_grammar h (Demoboard_language h (Demoboard_extension filename))
        = prismLanguages h (to_string h (js_get grammars l))
    \<and> (e, Str l, js_get grammars l) \<in>
        {(''jsx'', Str ''jsx'', Str ''javascript''), (''js'', Str ''jsx'', Str ''javascript''),
         (''html'', Str ''markup'', Undefined), (''css'', Str ''css'', Str ''css'')}"
proof -
  have ext: "Demoboard_extension filename = Str e"
    using assms by (intro Demoboard_extension_segment languages_key_no_dot)
  have lang: "Demoboard_language h (Str e) = Str l"
    using assms(1) by (simp add: Demoboard_language_def js_get_def)
  have tab: "(e, Str l, js_get grammars l) \<in>
        {(''jsx'', Str ''jsx'', Str ''javascript''), (''js'', Str ''jsx'', Str ''javascript''),
         (''html'', Str ''markup'', Undefined), (''css'', Str ''css'', Str ''css'')}"
  proof -
    consider "e = ''jsx''" "l = ''jsx''" | "e = ''js''" "l = ''jsx''"
      | "e = ''html''" "l = ''markup''" | "e = ''css''" "l = ''css''"
      using languages_keys [OF assms(1)] by blast
    then show ?thesis
    proof cases
      case 1
      then show ?thesis by (simp add: js_get_grammars_jsx)
    next
      case 2
      then show ?thesis by (simp add: js_get_grammars_jsx)
    next
      case 3
      then show ?thesis by (simp add: js_get_grammars_markup)
    next
      case 4
      then show ?thesis by (simp add: js_get_grammars_css)
    qed
  qed
  show ?thesis
    using tab by (simp add: ext lang Demoboard_grammar_id_def Demoboard_grammar_def)
qed

theorem known_extension_resolves_witness:
  "Demoboard_language (strictPrism :: (unit, string) host) (Demoboard_extension ''src/index.js'')
     = Str ''jsx''
   \<and> Demoboard_grammar_id (strictPrism :: (unit, string) host)
       (Demoboard_language strictPrism (Demoboard_extension ''src/index.js''))
     = Str ''javascript''
   \<and> Demoboard_grammar (strictPrism :: (unit, string) host)
       (Demoboard_language strictPrism (Demoboard_extension ''src/index.js''))
     = Some ''javascript''"
proof -
  have key: "map_of languages ''js'' = Some ''jsx''"
    by (simp add: languages_def)
  have name: "''src/index.js'' = ''js'' \<or> ''src/index.js'' = ''src/index'' @ ''.'' @ ''js''"
    by simp
  have reg: "prismLanguages (strictPrism :: (unit, string) host) ''javascript'' = Some ''javascript''"
    by (simp add: strictPrism_def)
  show ?thesis
    using known_extension_resolves [OF key name, of "strictPrism :: (unit, string) host"] reg
    by (auto simp: js_get_grammars_jsx)
qed

text \<open>
  C10. A file name without a dot is its own extension: the whole name is the key looked
  up in \<^verbatim>\<open>languages\<close>. So a file named \<^verbatim>\<open>css\<close> has the language \<^verbatim>\<open>css\<close>, and \<^verbatim>\<open>README\<close>
  has none.
\<close>

theorem dotless_filename_is_the_key:
  fixes h :: "('o, 'g) host"
  assumes "CHR ''.'' \<notin> set filename"
  shows "Demoboard_extension filename = (Str filename :: 'o jsval)
    \<and> Demoboard_language h (Demoboard_extension filename) = js_get languages filename
    \<and> Demoboard_language h (Demoboard_extension ''css'') = Str ''css''
    \<and> Demoboard_language h (Demoboard_extension ''README'') = Undefined"
proof -
  have own: "Demoboard_extension filename = (Str filename :: 'o jsval)"
    using assms by (intro Demoboard_extension_segment) simp_all
  have css: "Demoboard_extension ''css'' = (Str ''css'' :: 'o jsval)"
    by (intro Demoboard_extension_segment) simp_all
  have readme: "Demoboard_extension ''README'' = (Str ''README'' :: 'o jsval)"
    by (intro Demoboard_extension_segment) simp_all
  have "Demoboard_language h (Str filename) = js_get languages filename"
    by (simp add: Demoboard_language_def)
  moreover have "Demoboard_language h (Str ''css'') = Str ''css''"
    by (simp add: Demoboard_language_def js_get_def languages_def)
  moreover have "Demoboard_language h (Str ''README'') = Undefined"
    by (simp add: Demoboard_language_def js_get_def languages_def Object_prototype_def)
  ultimately show ?thesis
    by (simp only: own css readme simp_thms)
qed

theorem dotless_filename_is_the_key_witness:
  "CHR ''.'' \<notin> set ''Makefile''
   \<and> Demoboard_extension ''Makefile'' = (Str ''Makefile'' :: unit jsval)
   \<and> Demoboard_language (strictPrism :: (unit, string) host) (Demoboard_extension ''Makefile'')
       = Undefined"
proof -
  have dotless: "CHR ''.'' \<notin> set ''Makefile''"
    by simp
  have "js_get languages ''Makefile'' = (Undefined :: unit jsval)"
    by (simp add: js_get_def languages_def Object_prototype_def)
  then show ?thesis
    using dotless dotless_filename_is_the_key [OF dotless, of "strictPrism :: (unit, string) host"]
    by auto
qed

section \<open>The inline code renderer\<close>

text \<open>
  C4. The markup that \<^verbatim>\<open>code\<close> injects is \<^verbatim>\<open>highlightedSource\<close> as it was given, the empty
  string included: it is the only markup injected in the rendered element, and it is
  the payload of the \<^verbatim>\<open>code\<close> element.
\<close>

theorem code_injects_highlightedSource:
  "injected (code p) = [highlightedSource p]
   \<and> props_of ''code'' ''dangerouslySetInnerHTML'' (code p) = [PInnerHTML (highlightedSource p)]"
  by (simp add: code_def Let_def)

text \<open>
  C7. The language label of \<^verbatim>\<open>code\<close> is \<^verbatim>\<open>text\<close> when the prop is omitted. It decides
  the class of the \<^verbatim>\<open>pre\<close> gutter, \<^verbatim>\<open>language-\<close> followed by the label, and nothing else:
  apart from the class the element is the same for every label, and so is the injected
  markup.
\<close>

theorem code_language_selects_class:
  "props_of ''Doc.Gutter'' ''className'' (code p)
     = [PStr (''language-'' @ (case language p of None \<Rightarrow> ''text'' | Some l \<Rightarrow> l))]
   \<and> without_className (code (p\<lparr>language := l\<rparr>)) = without_className (code p)
   \<and> injected (code (p\<lparr>language := l\<rparr>)) = injected (code p)"
  by (simp add: code_def Let_def)

section \<open>The busy indicator\<close>

text \<open>
  C5. The hook gives a route object while a route is loading, and \<^verbatim>\<open>undefined\<close> (or
  \<^verbatim>\<open>null\<close>) otherwise. For each of these values the \<^verbatim>\<open>isBusy\<close> prop of the indicator is
  true exactly when the value is neither \<^verbatim>\<open>null\<close> nor \<^verbatim>\<open>undefined\<close>; as the value goes
  from \<^verbatim>\<open>null\<close> to a route and back, the prop goes from false to true and back.
\<close>

theorem isBusy_follows_loadingRoute:
  assumes "loadingRoute = Undefined \<or> loadingRoute = Null \<or> loadingRoute = Obj route"
  shows "props_of ''BusyIndicator'' ''isBusy'' (App loadingRoute)
       = [PBool (loadingRoute \<noteq> Null \<and> loadingRoute \<noteq> Undefined)]
    \<and> map (\<lambda>v. props_of ''BusyIndicator'' ''isBusy'' (App v)) [Null, Obj route, Null]
       = [[PBool False], [PBool True], [PBool False]]"
  using assms by (auto simp: App_def)

theorem isBusy_follows_loadingRoute_witness:
  "props_of ''BusyIndicator'' ''isBusy'' (App (Obj ''/guides/authentication''))
     = [PBool True :: (unit, unit) attr]
   \<and> map (\<lambda>v. props_of ''BusyIndicator'' ''isBusy'' (App v) :: (unit, unit) attr list)
       [Null, Obj ''/guides/authentication'', Null]
     = [[PBool False], [PBool True], [PBool False]]"
proof -
  have signal: "Obj ''/guides/authentication'' = Undefined
      \<or> Obj ''/guides/authentication'' = Null
      \<or> Obj ''/guides/authentication'' = Obj ''/guides/authentication''"
    by simp
  show ?thesis
    using isBusy_follows_loadingRoute [OF signal] by simp
qed

section \<open>What a demoboard renders\<close>

text \<open>
  With a file name, the render is decided by the one call of \<^verbatim>\<open>Prism.highlight\<close>: its
  exception ends the render, its markup is injected.
\<close>

lemma Demoboard_Str:
  fixes h :: "('o, 'g) host"
  assumes "Demoboard_filename p = (Str f :: 'o jsval)"
  shows "case prismHighlight h (js_get (sources p) f)
              (Demoboard_grammar h (Demoboard_language h (Demoboard_extension f)))
              (Demoboard_language h (Demoboard_extension f)) of
           Inl x \<Rightarrow> Demoboard h p = Inl x
         | Inr html \<Rightarrow>
             \<exists>el. Demoboard h p = Inr el \<and> injected el = [html]
               \<and> props_of ''Doc.Gutter'' ''className'' el
                 = [PStr (''language-''
                     @ to_string h (Demoboard_language h (Demoboard_extension f)))]"
  using assms by (simp add: Demoboard_def Let_def split: sum.split)

lemma Demoboard_Undefined:
  fixes h :: "('o, 'g) host"
  assumes "Demoboard_filename p = (Undefined :: 'o jsval)"
  shows "Demoboard h p = Inl TypeError"
  using assms by (simp add: Demoboard_def)

lemma Object_keys_creation_order:
  assumes "filter is_array_index (map fst obj) = []"
  shows "Object_keys obj = map fst obj"
proof -
  have "filter (\<lambda>k. \<not> is_array_index k) (map fst obj) = map fst obj"
    using assms by (simp add: filter_empty_conv)
  with assms show ?thesis by (simp add: Object_keys_def)
qed

lemma js_index_0: "js_index xs 0 = (case xs of [] \<Rightarrow> Undefined | k # ks \<Rightarrow> Str k)"
  by (simp add: js_index_def split: list.split)

lemma Demoboard_filename_cases:
  "Demoboard_filename p =
     (case editorPathname p of
        Some (c # cs) \<Rightarrow> Str (c # cs)
      | _ \<Rightarrow> js_index (Object_keys (sources p)) 0)"
  by (simp add: Demoboard_filename_def js_or_def split: option.split list.split)

text \<open>
  C2, as the code has it. The file name is \<^verbatim>\<open>editorPathname\<close> when that is a string
  that is not empty, and \<^verbatim>\<open>Object.keys(sources)[0]\<close> otherwise: the first key created when
  no key of \<^verbatim>\<open>sources\<close> is an array index, \<^verbatim>\<open>undefined\<close> when \<^verbatim>\<open>sources\<close> has no key. Without
  a file name the render ends in a \<^verbatim>\<open>TypeError\<close>; with one, the text handed to the
  highlighter is \<^verbatim>\<open>sources[filename]\<close>, and what the highlighter returns is injected.
\<close>

theorem Demoboard_active_file:
  fixes h :: "('o, 'g) host" and p :: "('i, 's) Demoboard_props"
  shows "(Demoboard_filename p :: 'o jsval) =
       (case editorPathname p of
          Some (c # cs) \<Rightarrow> Str (c # cs)
        | _ \<Rightarrow> js_index (Object_keys (sources p)) 0)
    \<and> (filter is_array_index (map fst (sources p)) = [] \<longrightarrow>
         (js_index (Object_keys (sources p)) 0 :: 'o jsval) =
           (case sources p of [] \<Rightarrow> Undefined | kv # rest \<Rightarrow> Str (fst kv)))
    \<and> (Demoboard_filename p = (Undefined :: 'o jsval) \<longrightarrow> Demoboard h p = Inl TypeError)
    \<and> (\<forall>f. Demoboard_filename p = (Str f :: 'o jsval) \<longrightarrow>
         (case prismHighlight h (js_get (sources p) f)
                 (Demoboard_grammar h (Demoboard_language h (Demoboard_extension f)))
                 (Demoboard_language h (Demoboard_extension f)) of
            Inl x \<Rightarrow> Demoboard h p = Inl x
          | Inr html \<Rightarrow> \<exists>el. Demoboard h p = Inr el \<and> injected el = [html]))"
proof (intro conjI impI allI)
  show "(Demoboard_filename p :: 'o jsval) =
       (case editorPathname p of
          Some (c # cs) \<Rightarrow> Str (c # cs)
        | _ \<Rightarrow> js_index (Object_keys (sources p)) 0)"
    by (rule Demoboard_filename_cases)
next
  assume "filter is_array_index (map fst (sources p)) = []"
  then have "Object_keys (sources p) = map fst (sources p)"
    by (rule Object_keys_creation_order)
  then show "(js_index (Object_keys (sources p)) 0 :: 'o jsval) =
           (case sources p of [] \<Rightarrow> Undefined | kv # rest \<Rightarrow> Str (fst kv))"
    by (simp add: js_index_0 split: list.split)
next
  assume "Demoboard_filename p = (Undefined :: 'o jsval)"
  then show "Demoboard h p = Inl TypeError"
    by (rule Demoboard_Undefined)
next
  fix f
  assume "Demoboard_filename p = (Str f :: 'o jsval)"
  from Demoboard_Str [OF this, of h]
  show "case prismHighlight h (js_get (sources p) f)
                 (Demoboard_grammar h (Demoboard_language h (Demoboard_extension f)))
                 (Demoboard_language h (Demoboard_extension f)) of
            Inl x \<Rightarrow> Demoboard h p = Inl x
          | Inr html \<Rightarrow> \<exists>el. Demoboard h p = Inr el \<and> injected el = [html]"
    by (auto split: sum.splits)
qed

text \<open>
  The example of the specification: no \<^verbatim>\<open>editorPathname\<close>, and \<^verbatim>\<open>helpers.js\<close> created
  before \<^verbatim>\<open>index.js\<close>.
\<close>

theorem Demoboard_active_file_witness:
  "Demoboard_filename
     \<lparr>id' = (), style = (), editorPathname = None,
      sources = [(''helpers.js'', ''export {}''), (''index.js'', ''run()'')]\<rparr>
     = (Str ''helpers.js'' :: unit jsval)
   \<and> map_sum id injected
       (Demoboard (strictPrism :: (unit, string) host)
          \<lparr>id' = (), style = (), editorPathname = None,
           sources = [(''helpers.js'', ''export {}''), (''index.js'', ''run()'')]\<rparr>)
     = Inr [''export {}'']"
proof -
  let ?p = "\<lparr>id' = (), style = (), editorPathname = None,
      sources = [(''helpers.js'', ''export {}''), (''index.js'', ''run()'')]\<rparr>"
  let ?h = "strictPrism :: (unit, string) host"
  note active = Demoboard_active_file [of ?p ?h]
  have names: "filter is_array_index (map fst (sources ?p)) = []"
    by (simp add: is_array_index_def is_digit_def)
  have filename: "Demoboard_filename ?p = (Str ''helpers.js'' :: unit jsval)"
    using active names by simp
  have ext: "Demoboard_extension ''helpers.js'' = (Str ''js'' :: unit jsval)"
    by (simp add: Demoboard_extension_def js_index_def)
  have lang: "Demoboard_language ?h (Str ''js'') = Str ''jsx''"
    by (simp add: Demoboard_language_def js_get_def languages_def)
  have gram: "Demoboard_grammar ?h (Str ''jsx'') = Some ''javascript''"
    by (simp add: Demoboard_grammar_def Demoboard_grammar_id_def js_get_grammars_jsx
        strictPrism_def)
  have src: "js_get [(''helpers.js'', ''export {}''), (''index.js'', ''run()'')] ''helpers.js''
      = (Str ''export {}'' :: unit jsval)"
    by (simp add: js_get_def)
  have call: "prismHighlight ?h (Str ''export {}'') (Some ''javascript'') (Str ''jsx'')
      = Inr ''export {}''"
    by (simp add: strictPrism_def)
  from active have "\<forall>f. Demoboard_filename ?p = (Str f :: unit jsval) \<longrightarrow>
         (case prismHighlight ?h (js_get (sources ?p) f)
                 (Demoboard_grammar ?h (Demoboard_language ?h (Demoboard_extension f)))
                 (Demoboard_language ?h (Demoboard_extension f)) of
            Inl x \<Rightarrow> Demoboard ?h ?p = Inl x
          | Inr html \<Rightarrow> \<exists>el. Demoboard ?h ?p = Inr el \<and> injected el = [html])"
    by blast
  with filename have "case prismHighlight ?h (js_get (sources ?p) ''helpers.js'')
                 (Demoboard_grammar ?h (Demoboard_language ?h (Demoboard_extension ''helpers.js'')))
                 (Demoboard_language ?h (Demoboard_extension ''helpers.js'')) of
            Inl x \<Rightarrow> Demoboard ?h ?p = Inl x
          | Inr html \<Rightarrow> \<exists>el. Demoboard ?h ?p = Inr el \<and> injected el = [html]"
    by blast
  then have "\<exists>el. Demoboard ?h ?p = Inr el \<and> injected el = [''export {}'']"
    by (simp add: ext lang gram src call)
  with filename show ?thesis by auto
qed

text \<open>
  C2 as it is written fails where \<^verbatim>\<open>editorPathname\<close> is the empty string and a later key
  of \<^verbatim>\<open>sources\<close> is an array index: the file name is neither \<^verbatim>\<open>editorPathname\<close> nor the
  first key created (\<^verbatim>\<open>b.js\<close>), it is \<^verbatim>\<open>1\<close>, which \<^verbatim>\<open>Object.keys\<close> lists first.
\<close>

theorem Demoboard_active_file_counterexample:
  "Demoboard_filename
     \<lparr>id' = (), style = (), editorPathname = Some '''',
      sources = [(''b.js'', ''B''), (''1'', ''one'')]\<rparr>
     = (Str ''1'' :: unit jsval)"
  by (simp add: Demoboard_filename_def js_or_def js_index_def Object_keys_def
      is_array_index_def is_digit_def decimal_def)

section \<open>An editorPathname that is empty\<close>

text \<open>When some key is an array index, the first key listed is the smallest of them.\<close>

lemma Object_keys_index_first:
  assumes "filter is_array_index (map fst obj) \<noteq> []"
  shows "\<exists>k. js_index (Object_keys obj) 0 = Str k \<and> k \<in> fst ` set obj \<and> is_array_index k
    \<and> (\<forall>k' \<in> fst ` set obj. is_array_index k' \<longrightarrow> decimal k \<le> decimal k')"
proof -
  define xs where "xs = filter is_array_index (map fst obj)"
  define ys where "ys = sort_key decimal xs"
  define zs where "zs = filter (\<lambda>k. \<not> is_array_index k) (map fst obj)"
  have keys: "Object_keys obj = ys @ zs"
    by (simp add: Object_keys_def xs_def ys_def zs_def)
  have "xs \<noteq> []"
    unfolding xs_def by (rule assms)
  moreover have "length ys = length xs"
    by (simp add: ys_def)
  ultimately obtain y rest where ys: "ys = y # rest"
    by (cases ys) auto
  have first: "js_index (Object_keys obj) 0 = Str y"
    by (simp add: keys ys js_index_def)
  have "set ys = set xs"
    by (simp add: ys_def)
  then have mem: "y \<in> set xs"
    by (auto simp: ys)
  have "sorted (map decimal ys)"
    unfolding ys_def by (rule sorted_sort_key)
  then have "\<forall>k' \<in> set ys. decimal y \<le> decimal k'"
    by (auto simp: ys)
  then have least: "\<forall>k' \<in> set xs. decimal y \<le> decimal k'"
    using \<open>set ys = set xs\<close> by blast
  from mem have "y \<in> fst ` set obj" and "is_array_index y"
    by (auto simp: xs_def)
  moreover have "\<forall>k' \<in> fst ` set obj. is_array_index k' \<longrightarrow> decimal y \<le> decimal k'"
    using least by (auto simp: xs_def)
  ultimately show ?thesis using first by blast
qed

text \<open>
  C9, as the code has it. An \<^verbatim>\<open>editorPathname\<close> that is the empty string is falsy, so the
  file name and the render are those of the same props without \<^verbatim>\<open>editorPathname\<close>: the
  file name is \<^verbatim>\<open>Object.keys(sources)[0]\<close>. That is the first key of \<^verbatim>\<open>sources\<close> in creation
  order when no key is an array index, the numerically smallest array index among the
  keys when there is one, and \<^verbatim>\<open>undefined\<close> when \<^verbatim>\<open>sources\<close> has no key, where the render
  ends in a \<^verbatim>\<open>TypeError\<close>.
\<close>

theorem empty_editorPathname_falls_back:
  fixes h :: "('o, 'g) host" and p :: "('i, 's) Demoboard_props"
  shows "Demoboard_filename (p\<lparr>editorPathname := Some ''''\<rparr>)
       = (Demoboard_filename (p\<lparr>editorPathname := None\<rparr>) :: 'o jsval)
    \<and> Demoboard h (p\<lparr>editorPathname := Some ''''\<rparr>) = Demoboard h (p\<lparr>editorPathname := None\<rparr>)
    \<and> (filter is_array_index (map fst (sources p)) = [] \<longrightarrow>
         (Demoboard_filename (p\<lparr>editorPathname := Some ''''\<rparr>) :: 'o jsval)
           = (case sources p of [] \<Rightarrow> Undefined | kv # rest \<Rightarrow> Str (fst kv)))
    \<and> (filter is_array_index (map fst (sources p)) \<noteq> [] \<longrightarrow>
         (\<exists>k. Demoboard_filename (p\<lparr>editorPathname := Some ''''\<rparr>) = (Str k :: 'o jsval)
            \<and> k \<in> fst ` set (sources p) \<and> is_array_index k
            \<and> (\<forall>k' \<in> fst ` set (sources p). is_array_index k' \<longrightarrow> decimal k \<le> decimal k')))
    \<and> (sources p = [] \<longrightarrow> Demoboard h (p\<lparr>editorPathname := Some ''''\<rparr>) = Inl TypeError)"
proof -
  let ?q = "p\<lparr>editorPathname := Some ''''\<rparr>"
  have filename: "Demoboard_filename ?q = (js_index (Object_keys (sources p)) 0 :: 'a jsval)"
    for dummy :: 'a
    by (simp add: Demoboard_filename_def js_or_def)
  have same: "Demoboard_filename ?q = (Demoboard_filename (p\<lparr>editorPathname := None\<rparr>) :: 'o jsval)"
    by (simp add: Demoboard_filename_def js_or_def)
  have render: "Demoboard h ?q = Demoboard h (p\<lparr>editorPathname := None\<rparr>)"
    by (simp add: Demoboard_def Demoboard_filename_def js_or_def Let_def
        split: sum.split jsval.split)
  have creation: "(Demoboard_filename ?q :: 'o jsval)
      = (case sources p of [] \<Rightarrow> Undefined | kv # rest \<Rightarrow> Str (fst kv))"
    if "filter is_array_index (map fst (sources p)) = []"
  proof -
    from that have "Object_keys (sources p) = map fst (sources p)"
      by (rule Object_keys_creation_order)
    then show ?thesis
      by (simp add: filename js_index_0 split: list.split)
  qed
  have index: "\<exists>k. Demoboard_filename ?q = (Str k :: 'o jsval)
            \<and> k \<in> fst ` set (sources p) \<and> is_array_index k
            \<and> (\<forall>k' \<in> fst ` set (sources p). is_array_index k' \<longrightarrow> decimal k \<le> decimal k')"
    if "filter is_array_index (map fst (sources p)) \<noteq> []"
    using Object_keys_index_first [OF that] by (simp add: filename)
  have throws: "Demoboard h ?q = Inl TypeError" if "sources p = []"
  proof -
    from that have "filter is_array_index (map fst (sources p)) = []" by simp
    from creation [OF this] that have "Demoboard_filename ?q = (Undefined :: 'o jsval)"
      by simp
    then show ?thesis by (rule Demoboard_Undefined)
  qed
  from same render creation index throws show ?thesis by blast
qed

text \<open>
  Two runs: with \<^verbatim>\<open>routes.js\<close> created before \<^verbatim>\<open>helpers.js\<close> the file is \<^verbatim>\<open>routes.js\<close>; with
  the keys \<^verbatim>\<open>routes.js\<close>, \<^verbatim>\<open>7\<close> and \<^verbatim>\<open>3\<close> it is \<^verbatim>\<open>3\<close>, the smallest of the array indices.
\<close>

theorem empty_editorPathname_falls_back_witness:
  "Demoboard_filename
     \<lparr>id' = (), style = (), editorPathname = Some '''',
      sources = [(''routes.js'', ''mount()''), (''helpers.js'', ''export {}'')]\<rparr>
     = (Str ''routes.js'' :: unit jsval)
   \<and> Demoboard_filename
       \<lparr>id' = (), style = (), editorPathname = Some '''',
        sources = [(''routes.js'', ''mount()''), (''7'', ''seven''), (''3'', ''three'')]\<rparr>
     = (Str ''3'' :: unit jsval)"
proof -
  let ?p = "\<lparr>id' = (), style = (), editorPathname = None,
      sources = [(''routes.js'', ''mount()''), (''helpers.js'', ''export {}'')]\<rparr>"
  let ?q = "\<lparr>id' = (), style = (), editorPathname = None,
      sources = [(''routes.js'', ''mount()''), (''7'', ''seven''), (''3'', ''three'')]\<rparr>"
  let ?h = "strictPrism :: (unit, string) host"
  have plain: "filter is_array_index (map fst (sources ?p)) = []"
    by (simp add: is_array_index_def is_digit_def)
  have name: "\<not> is_array_index ''routes.js''"
    by (simp add: is_array_index_def is_digit_def)
  have seven: "is_array_index ''7''" and three: "is_array_index ''3''"
    by (simp_all add: is_array_index_def is_digit_def decimal_def)
  have nums: "decimal ''7'' = 7" "decimal ''3'' = 3"
    by (simp_all add: decimal_def)
  have indexed: "filter is_array_index (map fst (sources ?q)) \<noteq> []"
    using seven by simp
  have "filter is_array_index (map fst (sources ?p)) = [] \<longrightarrow>
      (Demoboard_filename (?p\<lparr>editorPathname := Some ''''\<rparr>) :: unit jsval)
        = (case sources ?p of [] \<Rightarrow> Undefined | kv # rest \<Rightarrow> Str (fst kv))"
    using empty_editorPathname_falls_back [of ?p ?h] by blast
  with plain have "(Demoboard_filename (?p\<lparr>editorPathname := Some ''''\<rparr>) :: unit jsval)
        = (case sources ?p of [] \<Rightarrow> Undefined | kv # rest \<Rightarrow> Str (fst kv))"
    by blast
  then have first: "Demoboard_filename (?p\<lparr>editorPathname := Some ''''\<rparr>)
      = (Str ''routes.js'' :: unit jsval)"
    by simp
  have "\<exists>k. Demoboard_filename (?q\<lparr>editorPathname := Some ''''\<rparr>) = (Str k :: unit jsval)
      \<and> k \<in> fst ` set (sources ?q) \<and> is_array_index k
      \<and> (\<forall>k' \<in> fst ` set (sources ?q). is_array_index k' \<longrightarrow> decimal k \<le> decimal k')"
    using empty_editorPathname_falls_back [of ?q ?h] indexed by blast
  then obtain k where k: "Demoboard_filename (?q\<lparr>editorPathname := Some ''''\<rparr>) = (Str k :: unit jsval)"
      "k \<in> fst ` set (sources ?q)" "is_array_index k"
      "\<forall>k' \<in> fst ` set (sources ?q). is_array_index k' \<longrightarrow> decimal k \<le> decimal k'"
    by blast
  from k(4) three have "decimal k \<le> decimal ''3''"
    by simp
  moreover from k(2) have "k = ''routes.js'' \<or> k = ''7'' \<or> k = ''3''"
    by simp
  ultimately have "k = ''3''"
    using k(3) name nums by auto
  with k(1) have second: "Demoboard_filename (?q\<lparr>editorPathname := Some ''''\<rparr>)
      = (Str ''3'' :: unit jsval)"
    by simp
  from first second show ?thesis by simp
qed

text \<open>
  C9 as it is written fails in two places. With the keys \<^verbatim>\<open>index.js\<close> and then \<^verbatim>\<open>0\<close>,
  the file name is \<^verbatim>\<open>0\<close>, not the first key \<^verbatim>\<open>index.js\<close>; with no key at all there is no
  file name to fall back to, and the render ends in a \<^verbatim>\<open>TypeError\<close>.
\<close>

theorem empty_editorPathname_counterexample:
  "Demoboard_filename
     \<lparr>id' = (), style = (), editorPathname = Some '''',
      sources = [(''index.js'', ''run()''), (''0'', ''zero'')]\<rparr>
     = (Str ''0'' :: unit jsval)
   \<and> Demoboard_filename
       \<lparr>id' = (), style = (), editorPathname = Some '''', sources = []\<rparr>
     = (Undefined :: unit jsval)
   \<and> Demoboard (strictPrism :: (unit, string) host)
       \<lparr>id' = (), style = (), editorPathname = Some '''', sources = []\<rparr>
     = Inl TypeError"
  by (simp add: Demoboard_def Demoboard_filename_def js_or_def js_index_def Object_keys_def
      is_array_index_def is_digit_def decimal_def)

section \<open>File names the tables do not know\<close>

lemma js_get_grammars_undefined: "js_get grammars ''undefined'' = Undefined"
  by (simp add: js_get_def grammars_def Object_prototype_def)

lemma js_get_absent:
  assumes "map_of obj key = None" and "key \<notin> set Object_prototype"
  shows "js_get obj key = Undefined"
  using assms by (simp add: js_get_def)

text \<open>
  C1, as the code has it. When the last segment of the file name is neither a key of
  \<^verbatim>\<open>languages\<close> nor the name of a member of \<^verbatim>\<open>Object.prototype\<close>, the language and the
  grammar identifier are \<^verbatim>\<open>undefined\<close>, and the renderer calls the highlighter all the
  same, with the grammar \<^verbatim>\<open>Prism.languages[undefined]\<close> and the language \<^verbatim>\<open>undefined\<close>.
  The renderer has no fallback of its own: an exception of the highlighter ends the
  render, and otherwise the markup the highlighter returns is injected, under the class
  \<^verbatim>\<open>language-undefined\<close>.
\<close>

theorem unknown_extension_delegates:
  fixes h :: "('o, 'g) host" and p :: "('i, 's) Demoboard_props"
  assumes "Demoboard_filename p = (Str filename :: 'o jsval)"
    and "filename = e \<or> filename = stem @ ''.'' @ e"
    and "CHR ''.'' \<notin> set e"
    and "map_of languages e = None"
    and "e \<notin> set Object_prototype"
  shows "Demoboard_language h (Demoboard_extension filename) = Undefined
    \<and> Demoboard_grammar_id h (Demoboard_language h (Demoboard_extension filename)) = Undefined
    \<and> (case prismHighlight h (js_get (sources p) filename)
               (prismLanguages h ''undefined'') Undefined of
          Inl x \<Rightarrow> Demoboard h p = Inl x
        | Inr html \<Rightarrow>
            \<exists>el. Demoboard h p = Inr el \<and> injected el = [html]
              \<and> props_of ''Doc.Gutter'' ''className'' el = [PStr ''language-undefined''])"
proof -
  have ext: "Demoboard_extension filename = (Str e :: 'o jsval)"
    using assms(3) assms(2) by (rule Demoboard_extension_segment)
  have lang: "Demoboard_language h (Demoboard_extension filename) = Undefined"
    using assms(4,5) by (simp add: ext Demoboard_language_def js_get_absent)
  have gid: "Demoboard_grammar_id h Undefined = Undefined"
    by (simp add: Demoboard_grammar_id_def js_get_grammars_undefined)
  have gram: "Demoboard_grammar h Undefined = prismLanguages h ''undefined''"
    by (simp add: Demoboard_grammar_def gid)
  show ?thesis
    using Demoboard_Str [OF assms(1), of h]
    by (simp add: lang gid gram split: sum.splits)
qed

theorem unknown_extension_delegates_witness:
  "Demoboard_language (strictPrism :: (unit, string) host) (Demoboard_extension ''LICENSE'')
     = Undefined
   \<and> Demoboard (strictPrism :: (unit, string) host)
       \<lparr>id' = (), style = (), editorPathname = None, sources = [(''LICENSE'', ''MIT'')]\<rparr>
     = Inl TypeError"
proof -
  let ?p = "\<lparr>id' = (), style = (), editorPathname = None, sources = [(''LICENSE'', ''MIT'')]\<rparr>"
  let ?h = "strictPrism :: (unit, string) host"
  have filename: "Demoboard_filename ?p = (Str ''LICENSE'' :: unit jsval)"
    by (simp add: Demoboard_filename_def js_or_def js_index_def Object_keys_def
        is_array_index_def is_digit_def)
  have segment: "''LICENSE'' = ''LICENSE'' \<or> ''LICENSE'' = [] @ ''.'' @ ''LICENSE''"
    by simp
  have dotless: "CHR ''.'' \<notin> set ''LICENSE''"
    by simp
  have unknown: "map_of languages ''LICENSE'' = None"
    by (simp add: languages_def)
  have own: "''LICENSE'' \<notin> set Object_prototype"
    by (simp add: Object_prototype_def)
  have call: "prismHighlight ?h (js_get [(''LICENSE'', ''MIT'')] ''LICENSE'')
      (prismLanguages ?h ''undefined'') Undefined = Inl TypeError"
    by (simp add: strictPrism_def)
  show ?thesis
    using unknown_extension_delegates [OF filename segment dotless unknown own, of ?h]
    by (simp add: call)
qed

text \<open>
  C1 as it is written fails with a highlighter that needs its grammar, as Prism's does:
  \<^verbatim>\<open>txt\<close> is not a key of \<^verbatim>\<open>languages\<close>, and the render of \<^verbatim>\<open>notes.txt\<close> ends in the
  highlighter's \<^verbatim>\<open>TypeError\<close> instead of showing \<^verbatim>\<open>hello\<close>.
\<close>

theorem unknown_extension_counterexample:
  "map_of languages ''txt'' = None
   \<and> Demoboard (strictPrism :: (unit, string) host)
       \<lparr>id' = (), style = (), editorPathname = Some ''notes.txt'',
        sources = [(''notes.txt'', ''hello'')]\<rparr>
     = Inl TypeError"
  by (simp add: Demoboard_def Demoboard_filename_def js_or_def Demoboard_extension_def
      js_index_def Demoboard_language_def Demoboard_grammar_def Demoboard_grammar_id_def
      js_get_def languages_def grammars_def Object_prototype_def strictPrism_def)

section \<open>An editorPathname that sources does not hold\<close>

text \<open>
  C6, as the code has it. An \<^verbatim>\<open>editorPathname\<close> that is not empty, is not a key of
  \<^verbatim>\<open>sources\<close> and is not the name of a member of \<^verbatim>\<open>Object.prototype\<close> is the file name
  all the same; the renderer checks nothing and hands \<^verbatim>\<open>undefined\<close> to the highlighter
  as the text. An exception of the highlighter ends the render, so the render fails
  whenever the highlighter rejects a text that is \<^verbatim>\<open>undefined\<close>; otherwise the markup it
  returns is injected.
\<close>

theorem absent_editorPathname_reaches_highlighter:
  fixes h :: "('o, 'g) host" and p :: "('i, 's) Demoboard_props"
  assumes "editorPathname p = Some e" and "e \<noteq> []"
    and "map_of (sources p) e = None" and "e \<notin> set Object_prototype"
  shows "Demoboard_filename p = (Str e :: 'o jsval)
    \<and> js_get (sources p) e = (Undefined :: 'o jsval)
    \<and> (case prismHighlight h Undefined
               (Demoboard_grammar h (Demoboard_language h (Demoboard_extension e)))
               (Demoboard_language h (Demoboard_extension e)) of
          Inl x \<Rightarrow> Demoboard h p = Inl x
        | Inr html \<Rightarrow> \<exists>el. Demoboard h p = Inr el \<and> injected el = [html])
    \<and> ((\<forall>g l. \<exists>x. prismHighlight h Undefined g l = Inl x) \<longrightarrow> (\<exists>x. Demoboard h p = Inl x))"
proof -
  have filename: "Demoboard_filename p = (Str e :: 'o jsval)"
    using assms(1,2) by (simp add: Demoboard_filename_def js_or_def)
  have src: "js_get (sources p) e = (Undefined :: 'o jsval)"
    using assms(3,4) by (rule js_get_absent)
  have render: "case prismHighlight h Undefined
               (Demoboard_grammar h (Demoboard_language h (Demoboard_extension e)))
               (Demoboard_language h (Demoboard_extension e)) of
          Inl x \<Rightarrow> Demoboard h p = Inl x
        | Inr html \<Rightarrow> \<exists>el. Demoboard h p = Inr el \<and> injected el = [html]"
    using Demoboard_Str [OF filename, of h] by (auto simp: src split: sum.splits)
  have "\<exists>x. Demoboard h p = Inl x"
    if "\<forall>g l. \<exists>x. prismHighlight h Undefined g l = Inl x"
  proof -
    from that obtain x where "prismHighlight h Undefined
               (Demoboard_grammar h (Demoboard_language h (Demoboard_extension e)))
               (Demoboard_language h (Demoboard_extension e)) = Inl x"
      by blast
    with render show ?thesis by simp
  qed
  with filename src render show ?thesis by blast
qed

theorem absent_editorPathname_reaches_highlighter_witness:
  "Demoboard_filename
     \<lparr>id' = (), style = (), editorPathname = Some ''b.js'', sources = [(''a.js'', ''A'')]\<rparr>
     = (Str ''b.js'' :: unit jsval)
   \<and> Demoboard (strictPrism :: (unit, string) host)
       \<lparr>id' = (), style = (), editorPathname = Some ''b.js'', sources = [(''a.js'', ''A'')]\<rparr>
     = Inl TypeError"
proof -
  let ?p = "\<lparr>id' = (), style = (), editorPathname = Some ''b.js'',
      sources = [(''a.js'', ''A'')]\<rparr>"
  let ?h = "strictPrism :: (unit, string) host"
  have given: "editorPathname ?p = Some ''b.js''"
    by simp
  have nonempty: "''b.js'' \<noteq> []"
    by simp
  have absent: "map_of (sources ?p) ''b.js'' = None"
    by simp
  have own: "''b.js'' \<notin> set Object_prototype"
    by (simp add: Object_prototype_def)
  have ext: "Demoboard_extension ''b.js'' = (Str ''js'' :: unit jsval)"
    by (simp add: Demoboard_extension_def js_index_def)
  have lang: "Demoboard_language ?h (Str ''js'') = Str ''jsx''"
    by (simp add: Demoboard_language_def js_get_def languages_def)
  have call: "prismHighlight ?h Undefined (Demoboard_grammar ?h (Str ''jsx'')) (Str ''jsx'')
      = Inl TypeError"
    by (simp add: Demoboard_grammar_def Demoboard_grammar_id_def js_get_grammars_jsx
        strictPrism_def)
  show ?thesis
    using absent_editorPathname_reaches_highlighter [OF given nonempty absent own, of ?h]
    by (simp add: ext lang call)
qed

text \<open>
  C6 as it is written fails where \<^verbatim>\<open>editorPathname\<close> is the empty string: it is given, it
  is not a key of \<^verbatim>\<open>sources\<close>, and the render goes through, showing the first file.
\<close>

theorem absent_editorPathname_counterexample:
  "map_of [(''index.js'', ''run()''), (''styles.css'', ''body {}'')] '''' = None
   \<and> map_sum id injected
       (Demoboard (strictPrism :: (unit, string) host)
          \<lparr>id' = (), style = (), editorPathname = Some '''',
           sources = [(''index.js'', ''run()''), (''styles.css'', ''body {}'')]\<rparr>)
     = Inr [''run()'']"
  by (simp add: Demoboard_def Demoboard_filename_def js_or_def Demoboard_extension_def
      js_index_def Object_keys_def is_array_index_def is_digit_def
      Demoboard_language_def Demoboard_grammar_def Demoboard_grammar_id_def
      js_get_def languages_def grammars_def strictPrism_def)

end
